theory Spec2Isabelle
  imports Complex_Main
begin

section \<open>Decoded JSON and the Python operations the proxy applies to it\<close>

text \<open>
  The proxy (\<^verbatim>\<open>testdriver_proxy/proxy.py\<close>) works on what \<^verbatim>\<open>json.loads\<close> and
  \<^verbatim>\<open>response.json()\<close> return: \<^verbatim>\<open>None\<close>, booleans, integers, floats, strings, lists
  and dictionaries. A dictionary is kept as an association list read with \<open>map_of\<close>.
  Floats are only ever copied, never computed with, so they are carried as reals.
  Strings are lists of 8-bit characters.
\<close>

datatype json =
    JNull
  | JBool bool
  | JInt int
  | JFloat real
  | JStr string
  | JArr "json list"
  | JObj "(string \<times> json) list"

type_synonym dict = "(string \<times> json) list"

text \<open>
  The exceptions the translation code can raise on a decoded value:
  \<^verbatim>\<open>x.get(...)\<close> on a value that is no dictionary is an \<^verbatim>\<open>AttributeError\<close>; using a list
  or a dictionary as a dictionary key, iterating over a value that is not iterable and
  concatenating a string with a value that is no string are \<^verbatim>\<open>TypeError\<close>s.
  \<^verbatim>\<open>ValidationError\<close> is pydantic rejecting a field value. \<^verbatim>\<open>ValueError\<close> and
  \<^verbatim>\<open>RecursionError\<close> are what \<^verbatim>\<open>json.loads\<close> raises on an integer literal with
  more digits than the interpreter converts and on nesting deeper than its stack.
  \<^verbatim>\<open>json.JSONDecodeError\<close> is not listed: the only place that raises it catches it.
\<close>

datatype error = AttributeError | TypeError | ValidationError | ValueError | RecursionError

text \<open>
  The outcomes of \<^verbatim>\<open>json.loads\<close>: the decoded value, a \<^verbatim>\<open>JSONDecodeError\<close>, or an
  exception of another class.
\<close>

datatype loads_result = Decoded json | JSONDecodeError | LoadsRaised error

text \<open>Python's truth value of a decoded value (\<^verbatim>\<open>if x:\<close>).\<close>

fun truthy :: "json \<Rightarrow> bool" where
  "truthy JNull = False"
| "truthy (JBool b) = b"
| "truthy (JInt i) = (i \<noteq> 0)"
| "truthy (JFloat r) = (r \<noteq> 0)"
| "truthy (JStr s) = (s \<noteq> [])"
| "truthy (JArr xs) = (xs \<noteq> [])"
| "truthy (JObj d) = (d \<noteq> [])"

text \<open>\<^verbatim>\<open>d.get(k, dflt)\<close> on a dictionary.\<close>

definition dict_get :: "dict \<Rightarrow> string \<Rightarrow> json \<Rightarrow> json" where
  "dict_get d k dflt = (case map_of d k of Some v \<Rightarrow> v | None \<Rightarrow> dflt)"

text \<open>\<^verbatim>\<open>x.get(k, dflt)\<close> on any decoded value: only a dictionary has the method.\<close>

fun py_get :: "json \<Rightarrow> string \<Rightarrow> json \<Rightarrow> error + json" where
  "py_get (JObj d) k dflt = Inr (dict_get d k dflt)"
| "py_get _ k dflt = Inl AttributeError"

text \<open>
  The table \<^verbatim>\<open>finish_reason_map\<close>, written out once in \<^verbatim>\<open>_non_stream_response\<close>
  and once, with the same three entries, in \<^verbatim>\<open>_stream_response\<close>.
\<close>

definition finish_reason_map :: "(string \<times> string) list" where
  "finish_reason_map =
     [(''end_turn'', ''stop''), (''max_tokens'', ''length''), (''stop_sequence'', ''stop'')]"

text \<open>Whether Python can hash a decoded value: a list and a dictionary cannot be hashed.\<close>

fun hashable :: "json \<Rightarrow> bool" where
  "hashable (JArr xs) = False"
| "hashable (JObj d) = False"
| "hashable _ = True"

text \<open>
  \<^verbatim>\<open>finish_reason_map.get(stop_reason, "stop")\<close>: the keys are strings, so every
  hashable value that is no string gets the default; looking up a value that cannot be
  hashed raises \<^verbatim>\<open>TypeError\<close>.
\<close>

fun finish_reason_map_get :: "json \<Rightarrow> error + string" where
  "finish_reason_map_get (JStr s) =
     Inr (case map_of finish_reason_map s of Some v \<Rightarrow> v | None \<Rightarrow> ''stop'')"
| "finish_reason_map_get (JArr xs) = Inl TypeError"
| "finish_reason_map_get (JObj d) = Inl TypeError"
| "finish_reason_map_get _ = Inr ''stop''"

section \<open>Strings\<close>

text \<open>
  \<^verbatim>\<open>str.isspace\<close> on the characters below 256, \<^verbatim>\<open>str.strip()\<close> and
  \<^verbatim>\<open>str.startswith\<close>.
\<close>

definition isspace :: "char \<Rightarrow> bool" where
  "isspace c = (of_char c \<in> {9, 10, 11, 12, 13, 28, 29, 30, 31, 32, 133, 160 :: nat})"

definition strip :: "string \<Rightarrow> string" where
  "strip s = rev (dropWhile isspace (rev (dropWhile isspace s)))"

definition startswith :: "string \<Rightarrow> string \<Rightarrow> bool" where
  "startswith s p = (take (length p) s = p)"

section \<open>The streamed chunk (models.py)\<close>

record stream_choice =
  sc_index :: int
  sc_delta :: dict
  sc_finish_reason :: "string option"

record chat_completion_chunk =
  chunk_id :: string
  chunk_object :: string
  chunk_created :: int
  chunk_model :: string
  chunk_choices :: "stream_choice list"
  chunk_system_fingerprint :: "string option"

text \<open>
  What the generator yields: \<^verbatim>\<open>"data: " + chunk.model_dump_json() + "\n\n"\<close> for a
  chunk, or the literal \<^verbatim>\<open>"data: [DONE]\n\n"\<close>. The serialisation is left out: a frame
  is the chunk it carries.
\<close>

datatype frame = Chunk chat_completion_chunk | DoneFrame

section \<open>\<^verbatim>\<open>_stream_response\<close>\<close>

text \<open>
  The part of the loop body after \<^verbatim>\<open>json.loads\<close> and before the chunk is built:
  the delta and the finish reason of the event \<open>zai_chunk\<close>. \<open>Inr None\<close> is the
  \<^verbatim>\<open>continue\<close> of the \<^verbatim>\<open>message_stop\<close> branch, \<open>Inl e\<close> an exception.
\<close>

definition event_delta :: "json \<Rightarrow> error + (dict \<times> string option) option" where
  "event_delta zai_chunk =
     (case py_get zai_chunk ''type'' JNull of
        Inl e \<Rightarrow> Inl e
      | Inr event_type \<Rightarrow>
          if event_type = JStr ''content_block_start'' then
            Inr (Some ([(''role'', JStr ''assistant''), (''content'', JStr '''')], None))
          else if event_type = JStr ''content_block_delta'' then
            (case py_get zai_chunk ''delta'' (JObj []) of
               Inl e \<Rightarrow> Inl e
             | Inr delta_data \<Rightarrow>
                 (case py_get delta_data ''type'' JNull of
                    Inl e \<Rightarrow> Inl e
                  | Inr t \<Rightarrow>
                      if t = JStr ''text_delta'' then
                        (case py_get delta_data ''text'' (JStr '''') of
                           Inl e \<Rightarrow> Inl e
                         | Inr txt \<Rightarrow> Inr (Some ([(''content'', txt)], None)))
                      else Inr (Some ([], None))))
          else if event_type = JStr ''message_delta'' then
            (case py_get zai_chunk ''delta'' (JObj []) of
               Inl e \<Rightarrow> Inl e
             | Inr d \<Rightarrow>
                 (case py_get d ''stop_reason'' JNull of
                    Inl e \<Rightarrow> Inl e
                  | Inr stop_reason \<Rightarrow>
                      if truthy stop_reason then
                        (case finish_reason_map_get stop_reason of
                           Inl e \<Rightarrow> Inl e
                         | Inr finish_reason \<Rightarrow> Inr (Some ([], Some finish_reason)))
                      else Inr (Some ([], None))))
          else if event_type = JStr ''message_stop'' then Inr None
          else Inr (Some ([], None)))"

text \<open>
  \<^verbatim>\<open>ChatCompletionChunk(id=chunk_id, created=int(time.time()), model=request.model,
  choices=[StreamChoice(index=0, delta=delta, finish_reason=finish_reason)])\<close>; the
  fields \<^verbatim>\<open>object\<close> and \<^verbatim>\<open>system_fingerprint\<close> take the defaults of models.py.
\<close>

definition make_chunk :: "string \<Rightarrow> int \<Rightarrow> string \<Rightarrow> dict \<Rightarrow> string option \<Rightarrow> chat_completion_chunk" where
  "make_chunk cid created model delta finish_reason =
     \<lparr>chunk_id = cid, chunk_object = ''chat.completion.chunk'', chunk_created = created,
      chunk_model = model,
      chunk_choices = [\<lparr>sc_index = 0, sc_delta = delta, sc_finish_reason = finish_reason\<rparr>],
      chunk_system_fingerprint = None\<rparr>"

text \<open>The line after \<^verbatim>\<open>if line.startswith("data: "): line = line[6:]\<close>.\<close>

definition payload :: "string \<Rightarrow> string" where
  "payload line = (if startswith line ''data: '' then drop 6 line else line)"

text \<open>What one pass through the loop body does with a line.\<close>

datatype action =
    Continue
  | Break_Done
  | Yield chat_completion_chunk
  | Raise error

text \<open>
  The loop body. \<open>loads\<close> is \<^verbatim>\<open>json.loads\<close>. The \<^verbatim>\<open>except\<close> clause names
  \<^verbatim>\<open>json.JSONDecodeError\<close> only: any other exception of \<^verbatim>\<open>json.loads\<close> leaves the
  generator like the exceptions of the event handling. \<open>created\<close> is the value
  \<^verbatim>\<open>int(time.time())\<close> has if this pass reads the clock.
\<close>

definition process_line ::
  "(string \<Rightarrow> loads_result) \<Rightarrow> string \<Rightarrow> string \<Rightarrow> int \<Rightarrow> string \<Rightarrow> action" where
  "process_line loads cid model created line =
     (if line = [] \<or> strip line = [] then Continue
      else if strip (payload line) = ''[DONE]'' then Break_Done
      else if startswith (payload line) ''event: '' then Continue
      else
        (case loads (payload line) of
           JSONDecodeError \<Rightarrow> Continue
         | LoadsRaised e \<Rightarrow> Raise e
         | Decoded zai_chunk \<Rightarrow>
             (case event_delta zai_chunk of
                Inl e \<Rightarrow> Raise e
              | Inr None \<Rightarrow> Continue
              | Inr (Some (delta, finish_reason)) \<Rightarrow>
                  Yield (make_chunk cid created model delta finish_reason))))"

text \<open>
  The loop over \<^verbatim>\<open>response.aiter_lines()\<close>. The result is the frames yielded, in
  order, and the exception that ended the generator, if one did. The clock is read once
  for each chunk built: \<open>clock k\<close> is the value of the \<open>k\<close>-th read, and \<open>k\<close> counts the
  reads made so far.
\<close>

fun stream_loop ::
  "(string \<Rightarrow> loads_result) \<Rightarrow> string \<Rightarrow> string \<Rightarrow> (nat \<Rightarrow> int) \<Rightarrow> nat \<Rightarrow> string list
     \<Rightarrow> frame list \<times> error option" where
  "stream_loop loads cid model clock k [] = ([], None)"
| "stream_loop loads cid model clock k (line # rest) =
     (case process_line loads cid model (clock k) line of
        Continue \<Rightarrow> stream_loop loads cid model clock k rest
      | Break_Done \<Rightarrow> ([DoneFrame], None)
      | Raise e \<Rightarrow> ([], Some e)
      | Yield c \<Rightarrow>
          (case stream_loop loads cid model clock (Suc k) rest of
             (frames, r) \<Rightarrow> (Chunk c # frames, r)))"

text \<open>
  \<^verbatim>\<open>_stream_response\<close> from the point where the backend has answered: \<open>hex8\<close> is
  \<^verbatim>\<open>uuid.uuid4().hex[:8]\<close>, drawn once before the loop, \<open>model\<close> is
  \<^verbatim>\<open>request.model\<close> and \<open>lines\<close> are the lines of the backend's reply. The outbound
  call and \<^verbatim>\<open>raise_for_status\<close> belong to the transport.
\<close>

definition stream_response ::
  "(string \<Rightarrow> loads_result) \<Rightarrow> string \<Rightarrow> string \<Rightarrow> (nat \<Rightarrow> int) \<Rightarrow> string list
     \<Rightarrow> frame list \<times> error option" where
  "stream_response loads hex8 model clock lines =
     stream_loop loads (''chatcmpl-'' @ hex8) model clock 0 lines"

section \<open>The request (models.py, config.py)\<close>

datatype role = System | User | Assistant

text \<open>\<^verbatim>\<open>content: str | List[Dict[str, Any]]\<close>.\<close>

datatype content = Text string | Parts "dict list"

record message =
  msg_role :: role
  msg_content :: content
  msg_name :: "string option"

text \<open>\<^verbatim>\<open>stop: Optional[List[str] | str]\<close>.\<close>

datatype stop = StopStr string | StopList "string list"

record chat_completion_request =
  req_model :: string
  req_messages :: "message list"
  req_temperature :: "real option"
  req_top_p :: "real option"
  req_n :: "int option"
  req_stream :: "bool option"
  req_stop :: "stop option"
  req_max_tokens :: "int option"
  req_presence_penalty :: "real option"
  req_frequency_penalty :: "real option"
  req_logit_bias :: "(string \<times> real) list option"
  req_user :: "string option"

record config =
  cfg_host :: string
  cfg_port :: int
  cfg_zai_api_key :: "string option"
  cfg_zai_base_url :: string
  cfg_default_model :: string
  cfg_vision_model :: string
  cfg_max_tokens :: int
  cfg_temperature :: real
  cfg_timeout :: int
  cfg_max_retries :: int
  cfg_log_level :: string
  cfg_log_requests :: bool

section \<open>\<^verbatim>\<open>transform_request\<close>\<close>

fun role_str :: "role \<Rightarrow> string" where
  "role_str System = ''system''"
| "role_str User = ''user''"
| "role_str Assistant = ''assistant''"

fun content_json :: "content \<Rightarrow> json" where
  "content_json (Text s) = JStr s"
| "content_json (Parts ps) = JArr (map JObj ps)"

text \<open>\<^verbatim>\<open>msg.model_dump()\<close>: the three fields of a message, \<^verbatim>\<open>name\<close> also when it is \<^verbatim>\<open>None\<close>.\<close>

definition model_dump :: "message \<Rightarrow> dict" where
  "model_dump msg =
     [(''role'', JStr (role_str (msg_role msg))),
      (''content'', content_json (msg_content msg)),
      (''name'', (case msg_name msg of None \<Rightarrow> JNull | Some s \<Rightarrow> JStr s))]"

text \<open>
  The loop \<^verbatim>\<open>for msg in request.messages\<close>, with the two variables it updates:
  \<open>system_content\<close> (\<^verbatim>\<open>None\<close> at first) and the list \<open>messages\<close>.
\<close>

fun split_messages :: "message list \<Rightarrow> json \<Rightarrow> dict list \<Rightarrow> json \<times> dict list" where
  "split_messages [] system_content messages = (system_content, messages)"
| "split_messages (msg # rest) system_content messages =
     (if msg_role msg = System
      then split_messages rest (content_json (msg_content msg)) messages
      else split_messages rest system_content (messages @ [model_dump msg]))"

text \<open>\<^verbatim>\<open>request.max_tokens or self.config.max_tokens\<close>: \<^verbatim>\<open>None\<close> and \<open>0\<close> are false.\<close>

definition max_tokens_or :: "int option \<Rightarrow> int \<Rightarrow> int" where
  "max_tokens_or m dflt = (case m of None \<Rightarrow> dflt | Some n \<Rightarrow> if n \<noteq> 0 then n else dflt)"

text \<open>
  The value stored under \<^verbatim>\<open>stop_sequences\<close>, if \<^verbatim>\<open>if request.stop:\<close> lets one be
  stored: an empty string and an empty list are false.
\<close>

definition stop_sequences :: "stop option \<Rightarrow> json option" where
  "stop_sequences st =
     (case st of
        None \<Rightarrow> None
      | Some (StopList xs) \<Rightarrow> if xs \<noteq> [] then Some (JArr (map JStr xs)) else None
      | Some (StopStr s) \<Rightarrow> if s \<noteq> [] then Some (JArr [JStr s]) else None)"

text \<open>
  The dictionary \<^verbatim>\<open>zai_request\<close>: the four keys of the literal, then each key the
  \<^verbatim>\<open>if\<close> statements add, in their order. A key that is not added is not in the list.
\<close>

definition transform_request :: "config \<Rightarrow> chat_completion_request \<Rightarrow> dict" where
  "transform_request cfg request =
     (case split_messages (req_messages request) JNull [] of
        (system_content, messages) \<Rightarrow>
          [(''model'', JStr (req_model request)),
           (''messages'', JArr (map JObj messages)),
           (''max_tokens'', JInt (max_tokens_or (req_max_tokens request) (cfg_max_tokens cfg))),
           (''stream'', (case req_stream request of None \<Rightarrow> JNull | Some b \<Rightarrow> JBool b))]
          @ (if truthy system_content then [(''system'', system_content)] else [])
          @ (case req_temperature request of None \<Rightarrow> [] | Some t \<Rightarrow> [(''temperature'', JFloat t)])
          @ (case req_top_p request of None \<Rightarrow> [] | Some p \<Rightarrow> [(''top_p'', JFloat p)])
          @ (case stop_sequences (req_stop request) of
               None \<Rightarrow> [] | Some v \<Rightarrow> [(''stop_sequences'', v)]))"

section \<open>\<^verbatim>\<open>_non_stream_response\<close>\<close>

record usage =
  prompt_tokens :: int
  completion_tokens :: int
  total_tokens :: int

record choice =
  choice_index :: int
  choice_message :: message
  choice_finish_reason :: "string option"

record chat_completion_response =
  resp_id :: string
  resp_object :: string
  resp_created :: int
  resp_model :: string
  resp_choices :: "choice list"
  resp_usage :: usage
  resp_system_fingerprint :: "string option"

text \<open>
  The loop \<^verbatim>\<open>for content_block in zai_response["content"]\<close> over a list of blocks:
  \<^verbatim>\<open>content_text += content_block.get("text", "")\<close> for each block of type
  \<^verbatim>\<open>text\<close>.
\<close>

fun concat_text :: "json list \<Rightarrow> string \<Rightarrow> error + string" where
  "concat_text [] content_text = Inr content_text"
| "concat_text (content_block # rest) content_text =
     (case py_get content_block ''type'' JNull of
        Inl e \<Rightarrow> Inl e
      | Inr t \<Rightarrow>
          if t = JStr ''text'' then
            (case py_get content_block ''text'' (JStr '''') of
               Inl e \<Rightarrow> Inl e
             | Inr (JStr s) \<Rightarrow> concat_text rest (content_text @ s)
             | Inr _ \<Rightarrow> Inl TypeError)
          else concat_text rest content_text)"

text \<open>
  \<^verbatim>\<open>content_text\<close>. Iterating over a string gives its characters and over a
  dictionary its keys, all strings without \<^verbatim>\<open>get\<close>; the other values are not iterable.
\<close>

definition content_text_of :: "dict \<Rightarrow> error + string" where
  "content_text_of zai_response =
     (case map_of zai_response ''content'' of
        None \<Rightarrow> Inr []
      | Some (JArr blocks) \<Rightarrow> concat_text blocks []
      | Some (JStr s) \<Rightarrow> if s = [] then Inr [] else Inl AttributeError
      | Some (JObj d) \<Rightarrow> if d = [] then Inr [] else Inl AttributeError
      | Some _ \<Rightarrow> Inl TypeError)"

text \<open>
  The \<^verbatim>\<open>Usage(...)\<close> of the response. Both counts are read with
  \<^verbatim>\<open>zai_response.get("usage", {}).get(key, 0)\<close>. For two integers \<^verbatim>\<open>+\<close> is the sum
  and pydantic keeps the three integers as they are. What \<^verbatim>\<open>+\<close> and pydantic's
  coercion make of counts that are not both integers is the parameter \<open>untyped\<close>.
\<close>

definition response_usage :: "(json \<Rightarrow> json \<Rightarrow> error + usage) \<Rightarrow> dict \<Rightarrow> error + usage" where
  "response_usage untyped zai_response =
     (case py_get (dict_get zai_response ''usage'' (JObj [])) ''input_tokens'' (JInt 0) of
        Inl e \<Rightarrow> Inl e
      | Inr input_tokens \<Rightarrow>
          (case py_get (dict_get zai_response ''usage'' (JObj [])) ''output_tokens'' (JInt 0) of
             Inl e \<Rightarrow> Inl e
           | Inr output_tokens \<Rightarrow>
               (case (input_tokens, output_tokens) of
                  (JInt i, JInt j) \<Rightarrow>
                    Inr \<lparr>prompt_tokens = i, completion_tokens = j, total_tokens = i + j\<rparr>
                | _ \<Rightarrow> untyped input_tokens output_tokens)))"

text \<open>
  \<^verbatim>\<open>f"chatcmpl-{zai_response.get('id', uuid.uuid4().hex[:8])}"\<close>: a string is
  inserted as it is, \<open>py_str\<close> formats any other value.
\<close>

definition response_id :: "(json \<Rightarrow> string) \<Rightarrow> string \<Rightarrow> dict \<Rightarrow> string" where
  "response_id py_str hex8 zai_response =
     ''chatcmpl-'' @ (case dict_get zai_response ''id'' (JStr hex8) of
                        JStr s \<Rightarrow> s
                      | v \<Rightarrow> py_str v)"

text \<open>
  \<^verbatim>\<open>_non_stream_response\<close> from \<^verbatim>\<open>zai_response = response.json()\<close> on, for a reply
  that is a JSON object; \<open>now\<close> is \<^verbatim>\<open>int(time.time())\<close>.
\<close>

definition non_stream_response ::
  "(json \<Rightarrow> string) \<Rightarrow> (json \<Rightarrow> json \<Rightarrow> error + usage) \<Rightarrow> string \<Rightarrow> int
     \<Rightarrow> chat_completion_request \<Rightarrow> dict \<Rightarrow> error + chat_completion_response" where
  "non_stream_response py_str untyped hex8 now request zai_response =
     (case content_text_of zai_response of
        Inl e \<Rightarrow> Inl e
      | Inr content_text \<Rightarrow>
          (case finish_reason_map_get (dict_get zai_response ''stop_reason'' (JStr ''stop'')) of
             Inl e \<Rightarrow> Inl e
           | Inr finish_reason \<Rightarrow>
               (case response_usage untyped zai_response of
                  Inl e \<Rightarrow> Inl e
                | Inr u \<Rightarrow>
                    Inr \<lparr>resp_id = response_id py_str hex8 zai_response,
                         resp_object = ''chat.completion'',
                         resp_created = now,
                         resp_model = req_model request,
                         resp_choices =
                           [\<lparr>choice_index = 0,
                             choice_message = \<lparr>msg_role = Assistant,
                                               msg_content = Text content_text,
                                               msg_name = None\<rparr>,
                             choice_finish_reason = Some finish_reason\<rparr>],
                         resp_usage = u,
                         resp_system_fingerprint = None\<rparr>)))"

section \<open>Example inputs\<close>

text \<open>The events of the examples below, each with the payload that decodes to it.\<close>

definition example_payloads :: "(string \<times> json) list" where
  "example_payloads =
       [(''{\"type\": \"content_block_start\"}'',
           JObj [(''type'', JStr ''content_block_start'')]),
        (''{\"type\": \"content_block_delta\", \"delta\": {\"type\": \"text_delta\", \"text\": \"Hi\"}}'',
           JObj [(''type'', JStr ''content_block_delta''),
                 (''delta'', JObj [(''type'', JStr ''text_delta''), (''text'', JStr ''Hi'')])]),
        (''{\"type\": \"content_block_stop\"}'',
           JObj [(''type'', JStr ''content_block_stop'')]),
        (''{\"type\": \"ping\"}'',
           JObj [(''type'', JStr ''ping'')]),
        (''{\"type\": \"message_delta\", \"delta\": {\"stop_reason\": \"end_turn\"}}'',
           JObj [(''type'', JStr ''message_delta''),
                 (''delta'', JObj [(''stop_reason'', JStr ''end_turn'')])]),
        (''{\"type\": \"message_delta\", \"delta\": {\"stop_reason\": \"\"}}'',
           JObj [(''type'', JStr ''message_delta''),
                 (''delta'', JObj [(''stop_reason'', JStr '''')])]),
        (''{\"type\": \"message_delta\", \"delta\": {\"stop_reason\": [\"end_turn\"]}}'',
           JObj [(''type'', JStr ''message_delta''),
                 (''delta'', JObj [(''stop_reason'', JArr [JStr ''end_turn''])])]),
        (''{\"type\": \"message_stop\"}'',
           JObj [(''type'', JStr ''message_stop'')])]"

text \<open>A JSON integer of 4301 digits, one more than the interpreter converts.\<close>

definition example_long_number :: string where
  "example_long_number = CHR ''1'' # replicate 4299 (CHR ''1'') @ ''1''"

text \<open>The line of the backend's reply that carries this number.\<close>

definition example_long_number_line :: string where
  "example_long_number_line = ''data: '' @ example_long_number"

text \<open>
  \<^verbatim>\<open>json.loads\<close> on the payloads the examples below use: a run of more than 4300
  digits 1 raises \<^verbatim>\<open>ValueError\<close>, the payloads of the table decode, and every other
  payload of the examples (\<^verbatim>\<open>{not json\<close>) is one \<^verbatim>\<open>json.loads\<close> rejects with a
  \<^verbatim>\<open>JSONDecodeError\<close>.
\<close>

definition example_loads :: "string \<Rightarrow> loads_result" where
  "example_loads s =
     (if 4300 < length s \<and> set s \<subseteq> {CHR ''1''} then LoadsRaised ValueError
      else (case map_of example_payloads s of
              Some v \<Rightarrow> Decoded v
            | None \<Rightarrow> JSONDecodeError))"

definition example_clock :: "nat \<Rightarrow> int" where
  "example_clock k = 1700000000 + int k"

text \<open>The defaults of config.py.\<close>

definition example_config :: config where
  "example_config =
     \<lparr>cfg_host = ''0.0.0.0'', cfg_port = 8000, cfg_zai_api_key = None,
      cfg_zai_base_url = ''https://api.z.ai/v1'', cfg_default_model = ''glm-4.5'',
      cfg_vision_model = ''glm-4.5v'', cfg_max_tokens = 2000, cfg_temperature = 7 / 10,
      cfg_timeout = 60, cfg_max_retries = 3, cfg_log_level = ''INFO'',
      cfg_log_requests = True\<rparr>"

text \<open>A request with two system messages; the other fields have the defaults of models.py.\<close>

definition example_request :: chat_completion_request where
  "example_request =
     \<lparr>req_model = ''glm-4.5'',
      req_messages =
        [\<lparr>msg_role = System, msg_content = Text ''Be brief.'', msg_name = None\<rparr>,
         \<lparr>msg_role = User, msg_content = Text ''Hello'', msg_name = None\<rparr>,
         \<lparr>msg_role = System, msg_content = Text ''Be kind.'', msg_name = None\<rparr>,
         \<lparr>msg_role = Assistant, msg_content = Text ''Hi'', msg_name = None\<rparr>],
      req_temperature = Some (7 / 10), req_top_p = Some 1, req_n = Some 1,
      req_stream = Some False, req_stop = None, req_max_tokens = None,
      req_presence_penalty = Some 0, req_frequency_penalty = Some 0,
      req_logit_bias = None, req_user = None\<rparr>"

text \<open>A reply of the backend that also reports a total of its own.\<close>

definition example_response :: dict where
  "example_response =
     [(''id'', JStr ''msg_01''),
      (''type'', JStr ''message''),
      (''role'', JStr ''assistant''),
      (''content'', JArr [JObj [(''type'', JStr ''text''), (''text'', JStr ''Hello!'')]]),
      (''stop_reason'', JStr ''max_tokens''),
      (''usage'', JObj [(''input_tokens'', JInt 10), (''output_tokens'', JInt 5),
                        (''total_tokens'', JInt 999)])]"

text \<open>
  Stand-ins for the two parameters of \<open>non_stream_response\<close> that the examples do not
  reach: the formatting of an id that is no string, and the outcome for token counts
  that are no integers.
\<close>

text \<open>
  The table of stop reasons in the words of the specification: \<^verbatim>\<open>end_turn\<close> gives
  \<^verbatim>\<open>stop\<close>, \<^verbatim>\<open>max_tokens\<close> gives \<^verbatim>\<open>length\<close>, \<^verbatim>\<open>stop_sequence\<close> gives
  \<^verbatim>\<open>stop\<close>, and any other value gives \<^verbatim>\<open>stop\<close>.
\<close>

definition spec_finish_reason :: "string \<Rightarrow> string" where
  "spec_finish_reason s =
     (if s = ''end_turn'' then ''stop''
      else if s = ''max_tokens'' then ''length''
      else if s = ''stop_sequence'' then ''stop''
      else ''stop'')"

text \<open>The same table on a decoded value: a value that is no string is an other value.\<close>

fun spec_finish_reason_of :: "json \<Rightarrow> string" where
  "spec_finish_reason_of (JStr s) = spec_finish_reason s"
| "spec_finish_reason_of _ = ''stop''"


definition example_py_str :: "json \<Rightarrow> string" where
  "example_py_str v = ''?''"

definition example_untyped :: "json \<Rightarrow> json \<Rightarrow> error + usage" where
  "example_untyped i j = Inl ValidationError"

section \<open>Lines the stream loop passes over\<close>

text \<open>Whether a line is passed over does not depend on the chunk id, the model or the clock.\<close>

lemma process_line_Continue_any:
  "process_line loads cid model t line = Continue \<Longrightarrow>
   process_line loads cid' model' t' line = Continue"
  by (auto simp: process_line_def
      split: if_splits loads_result.splits option.splits sum.splits prod.splits)

text \<open>
  A line the loop body answers with \<^verbatim>\<open>continue\<close> leaves no trace: the loop yields the
  same frames and ends the same way with and without it, wherever it stands.
\<close>

lemma stream_loop_skip:
  assumes "process_line loads cid model t0 l = Continue"
  shows "stream_loop loads cid model clock k (pre @ l # post) =
         stream_loop loads cid model clock k (pre @ post)"
proof (induction pre arbitrary: k)
  case Nil
  from assms have "process_line loads cid model (clock k) l = Continue"
    by (rule process_line_Continue_any)
  then show ?case by simp
next
  case (Cons a pre)
  then show ?case by (simp split: action.splits prod.splits)
qed

lemma process_line_undecodable:
  assumes "loads (payload l) = JSONDecodeError" and "strip (payload l) \<noteq> ''[DONE]''"
  shows "process_line loads cid model t l = Continue"
  using assms by (simp add: process_line_def)

section \<open>Malformed lines\<close>

lemma dropWhile_unchanged:
  "xs \<noteq> [] \<Longrightarrow> \<not> P (hd xs) \<Longrightarrow> dropWhile P xs = xs"
  by (cases xs) simp_all

lemma strip_unchanged:
  assumes "s \<noteq> []" and "\<not> isspace (hd s)" and "\<not> isspace (last s)"
  shows "strip s = s"
proof -
  have "dropWhile isspace s = s"
    using assms(1,2) by (rule dropWhile_unchanged)
  moreover have "dropWhile isspace (rev s) = rev s"
    using assms(1,3) by (intro dropWhile_unchanged) (simp_all add: hd_rev)
  ultimately show ?thesis by (simp add: strip_def)
qed

lemma startswith_hd:
  "startswith s (c # p) \<Longrightarrow> hd s = c"
  by (cases s) (simp_all add: startswith_def)

lemma long_number_facts:
  "example_long_number \<noteq> []"
  "hd example_long_number = CHR ''1''"
  "last example_long_number = CHR ''1''"
  "length example_long_number = 4301"
  "set example_long_number = {CHR ''1''}"
  by (simp_all add: example_long_number_def)

text \<open>
  The line with the long number passes the checks for a blank line, for the sentinel and
  for an event line, and \<^verbatim>\<open>json.loads\<close> raises on its payload.
\<close>

lemma long_number_line_raises:
  "process_line example_loads cid model t example_long_number_line = Raise ValueError"
proof -
  have not_space: "\<not> isspace (CHR ''1'')" "\<not> isspace (CHR ''d'')"
    by (simp_all add: isspace_def)
  have pl: "payload example_long_number_line = example_long_number"
    by (simp add: payload_def startswith_def example_long_number_line_def)
  have s1: "strip example_long_number = example_long_number"
    by (rule strip_unchanged) (simp_all add: long_number_facts not_space)
  have "last example_long_number_line = CHR ''1''"
    using long_number_facts(1,3) by (simp add: example_long_number_line_def)
  then have s2: "strip example_long_number_line = example_long_number_line"
    by (intro strip_unchanged) (simp_all add: example_long_number_line_def not_space)
  have ne: "example_long_number_line \<noteq> []"
    by (simp add: example_long_number_line_def)
  have nd: "example_long_number \<noteq> ''[DONE]''"
  proof
    assume sentinel: "example_long_number = ''[DONE]''"
    have "hd example_long_number = hd ''[DONE]''"
      by (simp only: sentinel)
    then show False by (simp add: long_number_facts)
  qed
  have nev: "\<not> startswith example_long_number ''event: ''"
  proof
    assume "startswith example_long_number ''event: ''"
    then have "hd example_long_number = CHR ''e''"
      by (rule startswith_hd)
    then show False by (simp add: long_number_facts)
  qed
  have ld: "example_loads example_long_number = LoadsRaised ValueError"
    by (simp add: example_loads_def long_number_facts)
  show ?thesis
    by (simp add: process_line_def pl s1 s2 ne nd nev ld)
qed

text \<open>
  Claim C9 says that a line that fails to parse never aborts the stream. The loop
  catches \<^verbatim>\<open>json.JSONDecodeError\<close> and nothing else. On a line holding an integer of
  4301 digits \<^verbatim>\<open>json.loads\<close> raises \<^verbatim>\<open>ValueError\<close>, which ends the generator:
  the \<^verbatim>\<open>content_block_start\<close> before the line is translated, the
  \<^verbatim>\<open>content_block_stop\<close> after it is not, although without the line both are.
\<close>

theorem long_number_line_counterexample:
  "stream_response example_loads ''0a1b2c3d'' ''glm-4.5'' example_clock
     [''data: {\"type\": \"content_block_start\"}'',
      example_long_number_line,
      ''data: {\"type\": \"content_block_stop\"}'']
   = ([Chunk (make_chunk ''chatcmpl-0a1b2c3d'' 1700000000 ''glm-4.5''
               [(''role'', JStr ''assistant''), (''content'', JStr '''')] None)],
      Some ValueError)
   \<and> stream_response example_loads ''0a1b2c3d'' ''glm-4.5'' example_clock
     [''data: {\"type\": \"content_block_start\"}'',
      ''data: {\"type\": \"content_block_stop\"}'']
   = ([Chunk (make_chunk ''chatcmpl-0a1b2c3d'' 1700000000 ''glm-4.5''
               [(''role'', JStr ''assistant''), (''content'', JStr '''')] None),
       Chunk (make_chunk ''chatcmpl-0a1b2c3d'' 1700000001 ''glm-4.5'' [] None)],
      None)"
proof -
  have start: "process_line example_loads cid model t
                 ''data: {\"type\": \"content_block_start\"}''
               = Yield (make_chunk cid t model
                          [(''role'', JStr ''assistant''), (''content'', JStr '''')] None)"
    for cid model t
    by (simp add: process_line_def payload_def startswith_def strip_def isspace_def
        example_loads_def example_payloads_def event_delta_def dict_get_def)
  have stop: "process_line example_loads cid model t
                ''data: {\"type\": \"content_block_stop\"}''
              = Yield (make_chunk cid t model [] None)"
    for cid model t
    by (simp add: process_line_def payload_def startswith_def strip_def isspace_def
        example_loads_def example_payloads_def event_delta_def dict_get_def)
  show ?thesis
    by (simp add: stream_response_def start stop long_number_line_raises example_clock_def)
qed

text \<open>
  Claim C9, amended. For every sequence of backend stream lines, a line that
  \<^verbatim>\<open>json.loads\<close> rejects with a \<^verbatim>\<open>JSONDecodeError\<close> is skipped without aborting the
  stream and without emitting an error to the client: the frames yielded and the way
  the stream ends are the same with the malformed line \<open>l\<close> between \<open>pre\<close> and \<open>post\<close>
  as without it. The \<^verbatim>\<open>[DONE]\<close> sentinel is no malformed line: the loop recognises it
  before anything is parsed. A skipped line builds no chunk and so reads no clock: the
  chunks after it keep the creation times of their own clock reads.
\<close>

theorem malformed_line_is_skipped:
  assumes "loads (payload l) = JSONDecodeError" and "strip (payload l) \<noteq> ''[DONE]''"
  shows "stream_response loads hex8 model clock (pre @ [l] @ post) =
         stream_response loads hex8 model clock (pre @ post)"
proof -
  have "process_line loads (''chatcmpl-'' @ hex8) model 0 l = Continue"
    using assms by (rule process_line_undecodable)
  then show ?thesis
    by (simp add: stream_response_def stream_loop_skip)
qed

text \<open>
  The theorem at a malformed line between a \<^verbatim>\<open>content_block_start\<close> and a
  \<^verbatim>\<open>content_block_stop\<close> event: both events are translated, to the same two chunks.
\<close>

theorem malformed_line_is_skipped_witness:
  "example_loads (payload ''data: {not json'') = JSONDecodeError
   \<and> strip (payload ''data: {not json'') \<noteq> ''[DONE]''
   \<and> stream_response example_loads ''0a1b2c3d'' ''glm-4.5'' example_clock
        ([''data: {\"type\": \"content_block_start\"}''] @ [''data: {not json'']
          @ [''data: {\"type\": \"content_block_stop\"}''])
     = stream_response example_loads ''0a1b2c3d'' ''glm-4.5'' example_clock
        ([''data: {\"type\": \"content_block_start\"}'']
          @ [''data: {\"type\": \"content_block_stop\"}''])
   \<and> stream_response example_loads ''0a1b2c3d'' ''glm-4.5'' example_clock
        ([''data: {\"type\": \"content_block_start\"}'']
          @ [''data: {\"type\": \"content_block_stop\"}''])
     = ([Chunk (make_chunk ''chatcmpl-0a1b2c3d'' 1700000000 ''glm-4.5''
                  [(''role'', JStr ''assistant''), (''content'', JStr '''')] None),
         Chunk (make_chunk ''chatcmpl-0a1b2c3d'' 1700000001 ''glm-4.5'' [] None)], None)"
  using malformed_line_is_skipped [of example_loads "''data: {not json''" "''0a1b2c3d''"
      "''glm-4.5''" example_clock "[''data: {\"type\": \"content_block_start\"}'']"
      "[''data: {\"type\": \"content_block_stop\"}'']"]
  by (simp add: stream_response_def process_line_def payload_def startswith_def strip_def
      isspace_def example_loads_def example_payloads_def example_clock_def event_delta_def
      dict_get_def)

section \<open>The \<^verbatim>\<open>message_stop\<close> event\<close>

lemma process_line_message_stop:
  assumes "loads (payload l) = Decoded (JObj d)"
    and "dict_get d ''type'' JNull = JStr ''message_stop''"
    and "strip (payload l) \<noteq> ''[DONE]''"
  shows "process_line loads cid model t l = Continue"
  using assms by (simp add: process_line_def event_delta_def)

text \<open>
  Claim C2 says that no line after a \<^verbatim>\<open>message_stop\<close> event produces a chunk. The
  branch of that event is a \<^verbatim>\<open>continue\<close>, not a \<^verbatim>\<open>break\<close>: on the two lines
  \<^verbatim>\<open>message_stop\<close>, \<^verbatim>\<open>content_block_start\<close> the loop yields the chunk of the second.
\<close>

theorem message_stop_counterexample:
  "stream_response example_loads ''0a1b2c3d'' ''glm-4.5'' example_clock
     [''data: {\"type\": \"message_stop\"}'', ''data: {\"type\": \"content_block_start\"}'']
   = ([Chunk (make_chunk ''chatcmpl-0a1b2c3d'' 1700000000 ''glm-4.5''
               [(''role'', JStr ''assistant''), (''content'', JStr '''')] None)], None)"
  by (simp add: stream_response_def process_line_def payload_def startswith_def strip_def
      isspace_def example_loads_def example_payloads_def example_clock_def event_delta_def dict_get_def)

text \<open>
  Claim C2, amended. For every sequence of backend stream lines, no chunk is emitted for
  a \<^verbatim>\<open>message_stop\<close> event itself, and the event does not end the translation: the
  lines after it are translated as if the \<^verbatim>\<open>message_stop\<close> line were not there. The
  frames yielded and the way the stream ends are the same with the line \<open>l\<close> of the event
  between \<open>pre\<close> and \<open>post\<close> as without it.
\<close>

theorem message_stop_line_is_skipped:
  assumes "loads (payload l) = Decoded (JObj d)"
    and "dict_get d ''type'' JNull = JStr ''message_stop''"
    and "strip (payload l) \<noteq> ''[DONE]''"
  shows "stream_response loads hex8 model clock (pre @ [l] @ post) =
         stream_response loads hex8 model clock (pre @ post)"
proof -
  have "process_line loads (''chatcmpl-'' @ hex8) model 0 l = Continue"
    using assms by (rule process_line_message_stop)
  then show ?thesis
    by (simp add: stream_response_def stream_loop_skip)
qed

theorem message_stop_line_is_skipped_witness:
  "example_loads (payload ''data: {\"type\": \"message_stop\"}'')
     = Decoded (JObj [(''type'', JStr ''message_stop'')])
   \<and> dict_get [(''type'', JStr ''message_stop'')] ''type'' JNull = JStr ''message_stop''
   \<and> strip (payload ''data: {\"type\": \"message_stop\"}'') \<noteq> ''[DONE]''
   \<and> stream_response example_loads ''0a1b2c3d'' ''glm-4.5'' example_clock
        ([''data: {\"type\": \"content_block_stop\"}'']
          @ [''data: {\"type\": \"message_stop\"}'']
          @ [''data: {\"type\": \"content_block_start\"}''])
     = stream_response example_loads ''0a1b2c3d'' ''glm-4.5'' example_clock
        ([''data: {\"type\": \"content_block_stop\"}'']
          @ [''data: {\"type\": \"content_block_start\"}''])"
  using message_stop_line_is_skipped [of example_loads "''data: {\"type\": \"message_stop\"}''"
      "[(''type'', JStr ''message_stop'')]" "''0a1b2c3d''" "''glm-4.5''" example_clock
      "[''data: {\"type\": \"content_block_stop\"}'']"
      "[''data: {\"type\": \"content_block_start\"}'']"]
  by (simp add: payload_def startswith_def strip_def isspace_def example_loads_def example_payloads_def dict_get_def)

section \<open>Events of the other kinds\<close>

text \<open>
  Claim C1 says that a \<^verbatim>\<open>content_block_stop\<close> event produces no chunk. No branch of
  the loop body names that kind, so the event keeps the delta \<^verbatim>\<open>{}\<close> and the finish
  reason \<^verbatim>\<open>None\<close> set before the branches, and the chunk is built and yielded.
\<close>

theorem content_block_stop_counterexample:
  "stream_response example_loads ''0a1b2c3d'' ''glm-4.5'' example_clock
     [''data: {\"type\": \"content_block_stop\"}'']
   = ([Chunk (make_chunk ''chatcmpl-0a1b2c3d'' 1700000000 ''glm-4.5'' [] None)], None)"
  by (simp add: stream_response_def process_line_def payload_def startswith_def strip_def
      isspace_def example_loads_def example_payloads_def example_clock_def event_delta_def dict_get_def)

text \<open>
  Claim C1, amended. For every backend stream event of kind \<^verbatim>\<open>content_block_stop\<close>,
  and for every event whose kind is none of \<^verbatim>\<open>content_block_start\<close>,
  \<^verbatim>\<open>content_block_delta\<close>, \<^verbatim>\<open>message_delta\<close> and \<^verbatim>\<open>message_stop\<close> (an event
  without a kind among them), the stream translator emits exactly one chunk, with an
  empty delta and no finish reason. Here \<open>l\<close> is a line that reaches the parser and \<open>d\<close>
  the event it decodes to.
\<close>

theorem unrecognized_event_yields_empty_chunk:
  assumes "dict_get d ''type'' JNull \<notin>
             {JStr ''content_block_start'', JStr ''content_block_delta'',
              JStr ''message_delta'', JStr ''message_stop''}"
    and "loads (payload l) = Decoded (JObj d)"
    and "strip l \<noteq> []"
    and "strip (payload l) \<noteq> ''[DONE]''"
    and "\<not> startswith (payload l) ''event: ''"
  shows "process_line loads cid model t l = Yield (make_chunk cid t model [] None)
       \<and> stream_response loads hex8 model clock [l]
           = ([Chunk (make_chunk (''chatcmpl-'' @ hex8) (clock 0) model [] None)], None)"
proof -
  have "l \<noteq> []" using assms(3) by (auto simp: strip_def)
  then have "process_line loads c model t' l = Yield (make_chunk c t' model [] None)" for c t'
    using assms by (simp add: process_line_def event_delta_def)
  then show ?thesis by (simp add: stream_response_def)
qed

theorem unrecognized_event_yields_empty_chunk_witness:
  "dict_get [(''type'', JStr ''ping'')] ''type'' JNull \<notin>
             {JStr ''content_block_start'', JStr ''content_block_delta'',
              JStr ''message_delta'', JStr ''message_stop''}
   \<and> example_loads (payload ''data: {\"type\": \"ping\"}'') = Decoded (JObj [(''type'', JStr ''ping'')])
   \<and> strip ''data: {\"type\": \"ping\"}'' \<noteq> []
   \<and> strip (payload ''data: {\"type\": \"ping\"}'') \<noteq> ''[DONE]''
   \<and> \<not> startswith (payload ''data: {\"type\": \"ping\"}'') ''event: ''
   \<and> process_line example_loads ''chatcmpl-0a1b2c3d'' ''glm-4.5'' 1700000000
         ''data: {\"type\": \"ping\"}''
       = Yield (make_chunk ''chatcmpl-0a1b2c3d'' 1700000000 ''glm-4.5'' [] None)
   \<and> stream_response example_loads ''0a1b2c3d'' ''glm-4.5'' example_clock
         [''data: {\"type\": \"ping\"}'']
       = ([Chunk (make_chunk ''chatcmpl-0a1b2c3d'' 1700000000 ''glm-4.5'' [] None)], None)"
  using unrecognized_event_yields_empty_chunk [of "[(''type'', JStr ''ping'')]" example_loads
      "''data: {\"type\": \"ping\"}''" "''chatcmpl-0a1b2c3d''" "''glm-4.5''" 1700000000
      "''0a1b2c3d''" example_clock]
  by (simp add: payload_def startswith_def strip_def isspace_def example_loads_def example_payloads_def dict_get_def
      example_clock_def)

section \<open>The chunks of one stream\<close>

lemma process_line_Yield:
  "process_line loads cid model t line = Yield c \<Longrightarrow>
   chunk_id c = cid \<and> map sc_index (chunk_choices c) = [0]"
  by (auto simp: process_line_def make_chunk_def
      split: if_splits loads_result.splits option.splits sum.splits prod.splits)

lemma stream_loop_chunks:
  "Chunk c \<in> set (fst (stream_loop loads cid model clock k lines)) \<Longrightarrow>
   chunk_id c = cid \<and> map sc_index (chunk_choices c) = [0]"
proof (induction lines arbitrary: k)
  case Nil
  then show ?case by simp
next
  case (Cons line lines)
  show ?case
  proof (cases "process_line loads cid model (clock k) line")
    case Continue
    with Cons show ?thesis by simp
  next
    case Break_Done
    with Cons.prems show ?thesis by simp
  next
    case (Yield c')
    with Cons.prems
    have "c = c' \<or> Chunk c \<in> set (fst (stream_loop loads cid model clock (Suc k) lines))"
      by (auto split: prod.splits)
    then show ?thesis
      using Yield Cons.IH process_line_Yield by blast
  next
    case (Raise e)
    with Cons.prems show ?thesis by simp
  qed
qed

text \<open>
  Claim C10. Every chunk emitted during one stream carries the id drawn once before the
  loop, \<^verbatim>\<open>chatcmpl-\<close> followed by the eight hex digits, and has exactly one choice,
  whose index is 0.
\<close>

theorem chunk_id_stable_one_choice:
  assumes "Chunk c \<in> set (fst (stream_response loads hex8 model clock lines))"
  shows "chunk_id c = ''chatcmpl-'' @ hex8 \<and> map sc_index (chunk_choices c) = [0]"
  using assms unfolding stream_response_def by (rule stream_loop_chunks)

theorem chunk_id_stable_one_choice_witness:
  "Chunk (make_chunk ''chatcmpl-0a1b2c3d'' 1700000001 ''glm-4.5'' [(''content'', JStr ''Hi'')] None)
     \<in> set (fst (stream_response example_loads ''0a1b2c3d'' ''glm-4.5'' example_clock
          [''data: {\"type\": \"content_block_start\"}'',
           ''data: {\"type\": \"content_block_delta\", \"delta\": {\"type\": \"text_delta\", \"text\": \"Hi\"}}'',
           ''data: [DONE]'']))
   \<and> chunk_id (make_chunk ''chatcmpl-0a1b2c3d'' 1700000001 ''glm-4.5'' [(''content'', JStr ''Hi'')] None)
       = ''chatcmpl-'' @ ''0a1b2c3d''
   \<and> map sc_index (chunk_choices
         (make_chunk ''chatcmpl-0a1b2c3d'' 1700000001 ''glm-4.5'' [(''content'', JStr ''Hi'')] None))
       = [0]"
  using chunk_id_stable_one_choice [of
      "make_chunk ''chatcmpl-0a1b2c3d'' 1700000001 ''glm-4.5'' [(''content'', JStr ''Hi'')] None"
      example_loads "''0a1b2c3d''" "''glm-4.5''" example_clock
      "[''data: {\"type\": \"content_block_start\"}'',
           ''data: {\"type\": \"content_block_delta\", \"delta\": {\"type\": \"text_delta\", \"text\": \"Hi\"}}'',
           ''data: [DONE]'']"]
  by (simp add: stream_response_def process_line_def payload_def startswith_def strip_def
      isspace_def example_loads_def example_payloads_def example_clock_def event_delta_def dict_get_def)

section \<open>The translated request\<close>

text \<open>The loop over the messages, in closed form.\<close>

lemma split_messages_eq:
  "split_messages ms sc acc =
     ((case filter (\<lambda>m. msg_role m = System) ms of
         [] \<Rightarrow> sc
       | x # xs \<Rightarrow> content_json (msg_content (last (x # xs)))),
      acc @ map model_dump (filter (\<lambda>m. msg_role m \<noteq> System) ms))"
proof (induction ms arbitrary: sc acc)
  case Nil
  then show ?case by simp
next
  case (Cons m ms)
  then show ?case by (simp split: list.splits)
qed

lemma map_of_optional_field:
  "map_of (case x of None \<Rightarrow> [] | Some v \<Rightarrow> [(k, f v)]) k'
     = (if k' = k then map_option f x else None)"
  by (cases x) simp_all

lemma map_of_system_field:
  "map_of (if b then [(k, v)] else []) k' = (if b \<and> k' = k then Some v else None)"
  by simp

lemma transform_request_unfold:
  "transform_request cfg request =
     [(''model'', JStr (req_model request)),
      (''messages'', JArr (map JObj (map model_dump
          (filter (\<lambda>m. msg_role m \<noteq> System) (req_messages request))))),
      (''max_tokens'', JInt (max_tokens_or (req_max_tokens request) (cfg_max_tokens cfg))),
      (''stream'', (case req_stream request of None \<Rightarrow> JNull | Some b \<Rightarrow> JBool b))]
     @ (if truthy (fst (split_messages (req_messages request) JNull []))
        then [(''system'', fst (split_messages (req_messages request) JNull []))] else [])
     @ (case req_temperature request of None \<Rightarrow> [] | Some t \<Rightarrow> [(''temperature'', JFloat t)])
     @ (case req_top_p request of None \<Rightarrow> [] | Some p \<Rightarrow> [(''top_p'', JFloat p)])
     @ (case stop_sequences (req_stop request) of
          None \<Rightarrow> [] | Some v \<Rightarrow> [(''stop_sequences'', v)])"
  by (simp add: transform_request_def split_messages_eq)

lemmas transform_request_lookup =
  transform_request_unfold map_of_optional_field [where f = "\<lambda>v. v", simplified]
  map_of_optional_field map_of_system_field map_add_def

text \<open>
  Claim C3. When the temperature of the source request is null the backend request has
  no \<^verbatim>\<open>temperature\<close> key, and when it is present the key holds that value; the same for
  \<^verbatim>\<open>top_p\<close>. No default is put in.
\<close>

theorem temperature_top_p_copied_when_present:
  "map_of (transform_request cfg request) ''temperature''
     = map_option JFloat (req_temperature request)
   \<and> map_of (transform_request cfg request) ''top_p''
     = map_option JFloat (req_top_p request)"
proof -
  have temperature: "map_of (transform_request cfg request) ''temperature''
                       = map_option JFloat (req_temperature request)"
    by (cases "req_temperature request") (simp_all add: transform_request_lookup)
  have top_p: "map_of (transform_request cfg request) ''top_p''
                 = map_option JFloat (req_top_p request)"
    by (cases "req_top_p request") (simp_all add: transform_request_lookup)
  from temperature top_p show ?thesis by simp
qed

theorem temperature_top_p_copied_when_present_witness:
  "map_of (transform_request example_config
            (example_request\<lparr>req_temperature := None, req_top_p := Some (9 / 10)\<rparr>))
          ''temperature'' = None
   \<and> map_of (transform_request example_config
            (example_request\<lparr>req_temperature := None, req_top_p := Some (9 / 10)\<rparr>))
          ''top_p'' = Some (JFloat (9 / 10))"
  using temperature_top_p_copied_when_present [of example_config
      "example_request\<lparr>req_temperature := None, req_top_p := Some (9 / 10)\<rparr>"]
  by (simp add: example_request_def)

text \<open>
  Claim C4 says that a \<^verbatim>\<open>max_tokens\<close> that is present and not null is the backend's
  \<^verbatim>\<open>max_tokens\<close>. The code takes \<^verbatim>\<open>request.max_tokens or self.config.max_tokens\<close>,
  and \<open>0\<close> is false: a request with \<^verbatim>\<open>max_tokens = 0\<close> gets the configured 2000.
\<close>

theorem max_tokens_zero_counterexample:
  "map_of (transform_request example_config (example_request\<lparr>req_max_tokens := Some 0\<rparr>))
          ''max_tokens'' = Some (JInt 2000)"
  by (simp add: transform_request_lookup example_request_def example_config_def
      max_tokens_or_def)

text \<open>
  Claim C4, amended. For every source request, the backend request's \<^verbatim>\<open>max_tokens\<close>
  equals the source request's \<^verbatim>\<open>max_tokens\<close> whenever that field is present, not null
  and not zero, and equals the configured default otherwise; the key is always there
  and its value is an integer, never null.
\<close>

theorem max_tokens_always_populated:
  "map_of (transform_request cfg request) ''max_tokens''
     = Some (JInt (case req_max_tokens request of
                     None \<Rightarrow> cfg_max_tokens cfg
                   | Some n \<Rightarrow> if n = 0 then cfg_max_tokens cfg else n))"
proof -
  have "map_of (transform_request cfg request) ''max_tokens''
          = Some (JInt (max_tokens_or (req_max_tokens request) (cfg_max_tokens cfg)))"
    by (simp add: transform_request_lookup)
  then show ?thesis
    by (cases "req_max_tokens request") (simp_all add: max_tokens_or_def)
qed

theorem max_tokens_always_populated_witness:
  "map_of (transform_request example_config (example_request\<lparr>req_max_tokens := Some 1000\<rparr>))
          ''max_tokens'' = Some (JInt 1000)
   \<and> map_of (transform_request example_config example_request) ''max_tokens''
       = Some (JInt 2000)"
  using max_tokens_always_populated [of example_config
          "example_request\<lparr>req_max_tokens := Some 1000\<rparr>"]
        max_tokens_always_populated [of example_config example_request]
  by (simp add: example_request_def example_config_def)

text \<open>
  Claim C5 says that a bare string \<open>s\<close> as \<^verbatim>\<open>stop\<close> gives the one-element sequence
  \<open>[s]\<close>. The code adds the key under \<^verbatim>\<open>if request.stop:\<close>, and the empty string is
  false: for \<^verbatim>\<open>stop = ""\<close> the backend request has no \<^verbatim>\<open>stop_sequences\<close> at all.
\<close>

theorem empty_stop_counterexample:
  "map_of (transform_request example_config (example_request\<lparr>req_stop := Some (StopStr '''')\<rparr>))
          ''stop_sequences'' = None"
  by (simp add: transform_request_lookup example_request_def stop_sequences_def)

text \<open>
  Claim C5, amended. For every source request: if \<^verbatim>\<open>stop\<close> is a non-empty string \<open>s\<close>,
  the backend request's \<^verbatim>\<open>stop_sequences\<close> is the one-element sequence \<open>[s]\<close>; if it is
  a non-empty sequence, it is copied unchanged; if it is absent, the empty string or the
  empty sequence, the backend request has no \<^verbatim>\<open>stop_sequences\<close> key. The key is named
  \<^verbatim>\<open>stop_sequences\<close>, and there is no key \<^verbatim>\<open>stop\<close>.
\<close>

theorem stop_normalised_to_stop_sequences:
  "map_of (transform_request cfg request) ''stop_sequences''
     = (case req_stop request of
          None \<Rightarrow> None
        | Some (StopStr s) \<Rightarrow> if s = [] then None else Some (JArr [JStr s])
        | Some (StopList xs) \<Rightarrow> if xs = [] then None else Some (JArr (map JStr xs)))
   \<and> map_of (transform_request cfg request) ''stop'' = None"
proof -
  have "map_of (transform_request cfg request) ''stop_sequences''
          = stop_sequences (req_stop request)"
    by (cases "stop_sequences (req_stop request)") (simp_all add: transform_request_lookup)
  moreover have "map_of (transform_request cfg request) ''stop'' = None"
    by (simp add: transform_request_lookup split: option.splits)
  ultimately show ?thesis
    by (simp add: stop_sequences_def split: option.splits stop.splits)
qed

theorem stop_normalised_to_stop_sequences_witness:
  "map_of (transform_request example_config (example_request\<lparr>req_stop := Some (StopStr ''END'')\<rparr>))
          ''stop_sequences'' = Some (JArr [JStr ''END''])
   \<and> map_of (transform_request example_config (example_request\<lparr>req_stop := Some (StopStr ''END'')\<rparr>))
          ''stop'' = None
   \<and> map_of (transform_request example_config
               (example_request\<lparr>req_stop := Some (StopList [''END'', ''STOP''])\<rparr>))
          ''stop_sequences'' = Some (JArr [JStr ''END'', JStr ''STOP''])"
  using stop_normalised_to_stop_sequences [of example_config
          "example_request\<lparr>req_stop := Some (StopStr ''END'')\<rparr>"]
        stop_normalised_to_stop_sequences [of example_config
          "example_request\<lparr>req_stop := Some (StopList [''END'', ''STOP''])\<rparr>"]
  by (simp add: example_request_def)

text \<open>
  Claim C6 says that the content of the last system message is placed in the backend's
  \<^verbatim>\<open>system\<close> field whenever a system message exists. The code adds the key under
  \<^verbatim>\<open>if system_content:\<close>, and an empty content is false: when the last system message
  is empty the backend request has no \<^verbatim>\<open>system\<close> key.
\<close>

theorem empty_system_counterexample:
  "map_of (transform_request example_config
            (example_request\<lparr>req_messages :=
               [\<lparr>msg_role = System, msg_content = Text ''Be brief.'', msg_name = None\<rparr>,
                \<lparr>msg_role = User, msg_content = Text ''Hello'', msg_name = None\<rparr>,
                \<lparr>msg_role = System, msg_content = Text '''', msg_name = None\<rparr>]\<rparr>))
          ''system'' = None"
  by (simp add: transform_request_lookup example_request_def)

text \<open>
  Claim C6, amended. For every source request, the content of the last system-role
  message is the backend request's \<^verbatim>\<open>system\<close> field when such a message exists and its
  content is not empty; otherwise the backend request has no \<^verbatim>\<open>system\<close> field. Every
  system-role message is absent from the backend \<^verbatim>\<open>messages\<close>, which are the dumps of
  the other messages in their original order, and the dump of a message \<open>msg\<close> holds its
  role and its content unchanged.
\<close>

theorem system_extracted_messages_kept:
  "map_of (transform_request cfg request) ''system''
     = (case filter (\<lambda>m. msg_role m = System) (req_messages request) of
          [] \<Rightarrow> None
        | x # xs \<Rightarrow>
            if truthy (content_json (msg_content (last (x # xs))))
            then Some (content_json (msg_content (last (x # xs))))
            else None)
   \<and> map_of (transform_request cfg request) ''messages''
     = Some (JArr (map (\<lambda>m. JObj (model_dump m))
                    (filter (\<lambda>m. msg_role m \<noteq> System) (req_messages request))))
   \<and> map_of (model_dump msg) ''role'' = Some (JStr (role_str (msg_role msg)))
   \<and> map_of (model_dump msg) ''content'' = Some (content_json (msg_content msg))"
  by (simp add: transform_request_lookup split_messages_eq model_dump_def
      split: option.splits list.splits)

theorem system_extracted_messages_kept_witness:
  "map_of (transform_request example_config example_request) ''system''
     = Some (JStr ''Be kind.'')
   \<and> map_of (transform_request example_config example_request) ''messages''
     = Some (JArr [JObj [(''role'', JStr ''user''), (''content'', JStr ''Hello''),
                         (''name'', JNull)],
                   JObj [(''role'', JStr ''assistant''), (''content'', JStr ''Hi''),
                         (''name'', JNull)]])"
  using system_extracted_messages_kept [of example_config example_request]
  by (simp add: example_request_def model_dump_def)

section \<open>The translated response\<close>

text \<open>The dictionary \<^verbatim>\<open>finish_reason_map\<close> with its default is the table of the specification.\<close>

lemma finish_reason_map_lookup:
  "(case map_of finish_reason_map s of Some v \<Rightarrow> v | None \<Rightarrow> ''stop'') = spec_finish_reason s"
  by (simp add: finish_reason_map_def spec_finish_reason_def)

lemma finish_reason_map_get_hashable:
  "hashable v \<Longrightarrow> finish_reason_map_get v = Inr (spec_finish_reason_of v)"
  by (cases v) (simp_all add: finish_reason_map_lookup)

text \<open>
  When the content loop, the table lookup and the usage go through,
  \<^verbatim>\<open>_non_stream_response\<close> returns the response built from their results.
\<close>

lemma non_stream_response_produced:
  assumes "content_text_of zai_response = Inr content_text"
    and "hashable (dict_get zai_response ''stop_reason'' (JStr ''stop''))"
    and "response_usage untyped zai_response = Inr u"
  shows "non_stream_response py_str untyped hex8 now request zai_response
           = Inr \<lparr>resp_id = response_id py_str hex8 zai_response,
                  resp_object = ''chat.completion'',
                  resp_created = now,
                  resp_model = req_model request,
                  resp_choices =
                    [\<lparr>choice_index = 0,
                      choice_message = \<lparr>msg_role = Assistant,
                                        msg_content = Text content_text,
                                        msg_name = None\<rparr>,
                      choice_finish_reason =
                        Some (spec_finish_reason_of
                                (dict_get zai_response ''stop_reason'' (JStr ''stop'')))\<rparr>],
                  resp_usage = u,
                  resp_system_fingerprint = None\<rparr>"
  using assms
  by (simp add: non_stream_response_def finish_reason_map_get_hashable
      del: finish_reason_map_get.simps)

text \<open>
  Claim C7 says that on both paths every stop reason outside the table gives
  \<^verbatim>\<open>stop\<close>. On the stream path the table is consulted under \<^verbatim>\<open>if stop_reason:\<close>, and
  the empty string is false: a \<^verbatim>\<open>message_delta\<close> event whose stop reason is \<^verbatim>\<open>""\<close>
  yields a chunk without a finish reason. A stop reason that is a non-empty list cannot
  be looked up in the table: the lookup raises \<^verbatim>\<open>TypeError\<close>, which ends the stream on
  the stream path and leaves the non-stream path without a response.
\<close>

theorem stop_reason_counterexample:
  "stream_response example_loads ''0a1b2c3d'' ''glm-4.5'' example_clock
     [''data: {\"type\": \"message_delta\", \"delta\": {\"stop_reason\": \"\"}}'']
   = ([Chunk (make_chunk ''chatcmpl-0a1b2c3d'' 1700000000 ''glm-4.5'' [] None)], None)
   \<and> stream_response example_loads ''0a1b2c3d'' ''glm-4.5'' example_clock
     [''data: {\"type\": \"message_delta\", \"delta\": {\"stop_reason\": [\"end_turn\"]}}'']
   = ([], Some TypeError)
   \<and> non_stream_response example_py_str example_untyped ''0a1b2c3d'' 1700000000
        example_request [(''content'', JArr []), (''stop_reason'', JArr [JStr ''end_turn''])]
   = Inl TypeError"
  by (simp add: stream_response_def process_line_def payload_def startswith_def strip_def
      isspace_def example_loads_def example_payloads_def example_clock_def event_delta_def
      dict_get_def non_stream_response_def content_text_of_def)

text \<open>
  Claim C7, amended. On the non-stream path the backend stop reason, when it is not a
  list or an object, is mapped to the finish reason of the response by the fixed table:
  \<^verbatim>\<open>end_turn\<close> to \<^verbatim>\<open>stop\<close>, \<^verbatim>\<open>max_tokens\<close> to \<^verbatim>\<open>length\<close>, \<^verbatim>\<open>stop_sequence\<close> to
  \<^verbatim>\<open>stop\<close>, and every other value, also a missing or null one, to \<^verbatim>\<open>stop\<close>. On the
  stream path the stop reason of a \<^verbatim>\<open>message_delta\<close> event, when it is not a non-empty
  list or object, is mapped by the same table to the finish reason of the emitted chunk
  if it is true in Python's sense; if it is missing, null, empty, zero or false the
  emitted chunk has no finish reason. Here \<open>l\<close> is a line that reaches the parser, \<open>d\<close>
  the event it decodes to and \<open>dd\<close> the event's delta.
\<close>

theorem stop_reason_table_on_both_paths:
  assumes "content_text_of zai_response = Inr content_text"
    and "response_usage untyped zai_response = Inr u"
    and "hashable (dict_get zai_response ''stop_reason'' (JStr ''stop''))"
    and "loads (payload l) = Decoded (JObj d)"
    and "strip l \<noteq> []"
    and "strip (payload l) \<noteq> ''[DONE]''"
    and "\<not> startswith (payload l) ''event: ''"
    and "dict_get d ''type'' JNull = JStr ''message_delta''"
    and "dict_get d ''delta'' (JObj []) = JObj dd"
    and "hashable (dict_get dd ''stop_reason'' JNull)
         \<or> \<not> truthy (dict_get dd ''stop_reason'' JNull)"
  shows "(\<exists>resp. non_stream_response py_str untyped hex8 now request zai_response = Inr resp
            \<and> map choice_finish_reason (resp_choices resp)
                = [Some (spec_finish_reason_of
                           (dict_get zai_response ''stop_reason'' (JStr ''stop'')))])
       \<and> process_line loads cid model t l
           = Yield (make_chunk cid t model []
                      (if truthy (dict_get dd ''stop_reason'' JNull)
                       then Some (spec_finish_reason_of (dict_get dd ''stop_reason'' JNull))
                       else None))
       \<and> stream_response loads hex8 model clock [l]
           = ([Chunk (make_chunk (''chatcmpl-'' @ hex8) (clock 0) model []
                        (if truthy (dict_get dd ''stop_reason'' JNull)
                         then Some (spec_finish_reason_of (dict_get dd ''stop_reason'' JNull))
                         else None))], None)"
proof -
  have non_stream:
    "\<exists>resp. non_stream_response py_str untyped hex8 now request zai_response = Inr resp
            \<and> map choice_finish_reason (resp_choices resp)
                = [Some (spec_finish_reason_of
                           (dict_get zai_response ''stop_reason'' (JStr ''stop'')))]"
    using non_stream_response_produced [OF assms(1) assms(3) assms(2)] by simp
  have event: "event_delta (JObj d)
                 = Inr (Some ([], if truthy (dict_get dd ''stop_reason'' JNull)
                                  then Some (spec_finish_reason_of
                                               (dict_get dd ''stop_reason'' JNull))
                                  else None))"
    using assms(8,9,10)
    by (auto simp: event_delta_def finish_reason_map_get_hashable
        simp del: finish_reason_map_get.simps)
  have "l \<noteq> []" using assms(5) by (auto simp: strip_def)
  then have line: "process_line loads c model t' l
           = Yield (make_chunk c t' model []
                      (if truthy (dict_get dd ''stop_reason'' JNull)
                       then Some (spec_finish_reason_of (dict_get dd ''stop_reason'' JNull))
                       else None))" for c t'
    using assms(4,5,6,7) event by (simp add: process_line_def)
  from non_stream line show ?thesis by (simp add: stream_response_def)
qed

theorem stop_reason_table_on_both_paths_witness:
  "content_text_of example_response = Inr ''Hello!''
   \<and> response_usage example_untyped example_response
       = Inr \<lparr>prompt_tokens = 10, completion_tokens = 5, total_tokens = 15\<rparr>
   \<and> hashable (dict_get example_response ''stop_reason'' (JStr ''stop''))
   \<and> example_loads (payload
         ''data: {\"type\": \"message_delta\", \"delta\": {\"stop_reason\": \"end_turn\"}}'')
       = Decoded (JObj [(''type'', JStr ''message_delta''),
                        (''delta'', JObj [(''stop_reason'', JStr ''end_turn'')])])
   \<and> strip ''data: {\"type\": \"message_delta\", \"delta\": {\"stop_reason\": \"end_turn\"}}''
       \<noteq> []
   \<and> strip (payload
         ''data: {\"type\": \"message_delta\", \"delta\": {\"stop_reason\": \"end_turn\"}}'')
       \<noteq> ''[DONE]''
   \<and> \<not> startswith (payload
         ''data: {\"type\": \"message_delta\", \"delta\": {\"stop_reason\": \"end_turn\"}}'')
         ''event: ''
   \<and> (hashable (dict_get [(''stop_reason'', JStr ''end_turn'')] ''stop_reason'' JNull)
        \<or> \<not> truthy (dict_get [(''stop_reason'', JStr ''end_turn'')] ''stop_reason'' JNull))
   \<and> (\<exists>resp. non_stream_response example_py_str example_untyped ''0a1b2c3d'' 1700000000
                 example_request example_response = Inr resp
              \<and> map choice_finish_reason (resp_choices resp) = [Some ''length''])
   \<and> stream_response example_loads ''0a1b2c3d'' ''glm-4.5'' example_clock
        [''data: {\"type\": \"message_delta\", \"delta\": {\"stop_reason\": \"end_turn\"}}'']
       = ([Chunk (make_chunk ''chatcmpl-0a1b2c3d'' 1700000000 ''glm-4.5'' [] (Some ''stop''))],
          None)"
  using stop_reason_table_on_both_paths [of example_response "''Hello!''" example_untyped
      "\<lparr>prompt_tokens = 10, completion_tokens = 5, total_tokens = 15\<rparr>" example_loads
      "''data: {\"type\": \"message_delta\", \"delta\": {\"stop_reason\": \"end_turn\"}}''"
      "[(''type'', JStr ''message_delta''),
        (''delta'', JObj [(''stop_reason'', JStr ''end_turn'')])]"
      "[(''stop_reason'', JStr ''end_turn'')]"
      example_py_str "''0a1b2c3d''" 1700000000 example_request
      "''chatcmpl-0a1b2c3d''" "''glm-4.5''" 1700000000 example_clock]
  by (simp add: example_response_def content_text_of_def response_usage_def dict_get_def
      payload_def startswith_def strip_def isspace_def example_loads_def example_payloads_def
      example_clock_def spec_finish_reason_def)



end
